theory Spec2Isabelle
  imports Main
begin

section \<open>JavaScript strings\<close>

text \<open>
  A JavaScript string is a sequence of UTF-16 code units and \<open>length\<close> counts code
  units. The model uses \<open>string\<close>, one \<open>char\<close> per code unit, which covers the strings
  whose code units are below 256 (ASCII and Latin-1). On these strings no surrogate
  occurs, so \<open>encodeURIComponent\<close> never raises URIError, and \<open>toLowerCase\<close> maps code
  unit by code unit.
\<close>

definition startsWith :: "string \<Rightarrow> string \<Rightarrow> bool" where
  "startsWith s p = (take (length p) s = p)"

definition endsWith :: "string \<Rightarrow> string \<Rightarrow> bool" where
  "endsWith s p = (length p \<le> length s \<and> drop (length s - length p) s = p)"

text \<open>\<open>s.includes(p)\<close>: \<open>p\<close> occurs at some position of \<open>s\<close>, searched left to right.\<close>

fun includesStr :: "string \<Rightarrow> string \<Rightarrow> bool" where
  "includesStr [] p = (p = [])"
| "includesStr (c # s) p = (startsWith (c # s) p \<or> includesStr s p)"

text \<open>
  \<open>s.replace(/suf$/, '')\<close> for a literal \<open>suf\<close>: without the \<open>m\<close> flag, \<open>$\<close> matches at
  the end of the input only, so the one possible match is a suffix of \<open>s\<close>.
\<close>

definition replaceAtEnd :: "string \<Rightarrow> string \<Rightarrow> string" where
  "replaceAtEnd suf s = (if endsWith s suf then take (length s - length suf) s else s)"

text \<open>
  \<open>toLowerCase\<close> on code units below 256: \<open>A\<close>..\<open>Z\<close> and the Latin-1 capitals
  (0xC0..0xDE without the multiplication sign 0xD7) move up by 32.
\<close>

definition toLowerChar :: "char \<Rightarrow> char" where
  "toLowerChar c =
     (let n = (of_char c :: nat) in
      if 65 \<le> n \<and> n \<le> 90 then char_of (n + 32)
      else if 192 \<le> n \<and> n \<le> 222 \<and> n \<noteq> 215 then char_of (n + 32)
      else c)"

definition toLowerCase :: "string \<Rightarrow> string" where
  "toLowerCase s = map toLowerChar s"

text \<open>
  \<open>encodeURIComponent\<close>: the unreserved characters stay, every other code unit is
  written as the bytes of its UTF-8 encoding, each byte as \<open>%XX\<close> in upper-case hex.
  A code unit from 128 to 255 has the two bytes \<open>110000xx 10xxxxxx\<close>.
\<close>

definition hexDigit :: "nat \<Rightarrow> char" where
  "hexDigit n = ''0123456789ABCDEF'' ! n"

definition percentByte :: "nat \<Rightarrow> string" where
  "percentByte n = [CHR ''%'', hexDigit (n div 16), hexDigit (n mod 16)]"

definition uriUnreserved :: "char \<Rightarrow> bool" where
  "uriUnreserved c =
     (c \<in> set (''ABCDEFGHIJKLMNOPQRSTUVWXYZabcdefghijklmnopqrstuvwxyz0123456789-_.!~*()''
               @ [CHR 0x27]))"

definition encodeChar :: "char \<Rightarrow> string" where
  "encodeChar c =
     (let n = (of_char c :: nat) in
      if uriUnreserved c then [c]
      else if n < 128 then percentByte n
      else percentByte (192 + n div 64) @ percentByte (128 + n mod 64))"

definition encodeURIComponent :: "string \<Rightarrow> string" where
  "encodeURIComponent s = concat (map encodeChar s)"


section \<open>config/api.js\<close>

text \<open>\<open>API_BASE_URL\<close> comes from the build environment (\<open>''\<close> when unset): a parameter.\<close>

definition GENERATE_ARCHITECTURE :: "string \<Rightarrow> string" where
  "GENERATE_ARCHITECTURE API_BASE_URL = API_BASE_URL @ ''/api/generate-architecture''"


section \<open>DashboardPage.jsx: resolving the diagram URL\<close>

text \<open>
  The page state the resolver reads and writes, with the two style properties the
  image's error handler sets on the DOM: \<open>display = 'none'\<close> on the image and
  \<open>display = 'block'\<close> on its next sibling, the "Diagram not available" element.
\<close>

record dashboard =
  diagramUrl :: string
  resolvedDiagramUrl :: string
  diagramTriedProxy :: bool
  imgDisplayNone :: bool
  siblingDisplayBlock :: bool

definition backendUrl :: "string \<Rightarrow> string" where
  "backendUrl API_BASE_URL =
     replaceAtEnd ''/api/generate-architecture'' (GENERATE_ARCHITECTURE API_BASE_URL)"

text \<open>The condition of the effect's first branch (and of test-diagram-url.js).\<close>

definition isAzureStorageUrl :: "string \<Rightarrow> bool" where
  "isAzureStorageUrl u = (startsWith u ''https://'' \<and> includesStr u ''.blob.core.windows.net'')"

text \<open>The body of \<open>useEffect(..., [diagramUrl])\<close>.\<close>

definition diagramUrlEffect :: "string \<Rightarrow> dashboard \<Rightarrow> dashboard" where
  "diagramUrlEffect API_BASE_URL s =
     (if diagramUrl s = [] then
        s\<lparr>resolvedDiagramUrl := [], diagramTriedProxy := False\<rparr>
      else if isAzureStorageUrl (diagramUrl s) then
        (let encoded = encodeURIComponent (diagramUrl s);
             proxyUrl = backendUrl API_BASE_URL @ ''/api/proxy/diagram?url='' @ encoded
         in s\<lparr>resolvedDiagramUrl := proxyUrl, diagramTriedProxy := False\<rparr>)
      else
        (let fullDiagramUrl = backendUrl API_BASE_URL @ diagramUrl s
         in s\<lparr>resolvedDiagramUrl := fullDiagramUrl, diagramTriedProxy := False\<rparr>))"

text \<open>
  \<open>setDiagramUrl(u)\<close> followed by the effect. The effect depends on \<open>[diagramUrl]\<close>: it
  runs when the value has changed, and setting the value the state already holds
  changes nothing.
\<close>

definition setDiagramUrl :: "string \<Rightarrow> string \<Rightarrow> dashboard \<Rightarrow> dashboard" where
  "setDiagramUrl API_BASE_URL u s =
     (if u = diagramUrl s then s
      else diagramUrlEffect API_BASE_URL (s\<lparr>diagramUrl := u\<rparr>))"

definition buildProxyUrl :: "string \<Rightarrow> string \<Rightarrow> string" where
  "buildProxyUrl API_BASE_URL original =
     (let encoded = encodeURIComponent original
      in backendUrl API_BASE_URL @ ''/api/proxy/diagram?url='' @ encoded)"

text \<open>The image's \<open>onError\<close> handler.\<close>

definition onError :: "string \<Rightarrow> dashboard \<Rightarrow> dashboard" where
  "onError API_BASE_URL s =
     (if \<not> diagramTriedProxy s then
        (let fallbackUrl =
               (if startsWith (diagramUrl s) ''https://'' then diagramUrl s
                else buildProxyUrl API_BASE_URL (diagramUrl s))
         in s\<lparr>resolvedDiagramUrl := fallbackUrl, diagramTriedProxy := True\<rparr>)
      else
        s\<lparr>imgDisplayNone := True, siblingDisplayBlock := True\<rparr>)"

text \<open>The page as first rendered: no diagram, nothing resolved, nothing hidden.\<close>

definition initialDashboard :: dashboard where
  "initialDashboard =
     \<lparr>diagramUrl = [], resolvedDiagramUrl = [], diagramTriedProxy = False,
      imgDisplayNone = False, siblingDisplayBlock = False\<rparr>"


section \<open>validationService.js\<close>

record ValidationResult =
  valid :: bool
  canonical :: string
  submodule :: string

record Suggestion =
  component :: string
  usage :: string
  submodule :: string

text \<open>
  How \<open>await fetch(...)\<close> followed by \<open>await response.json()\<close> settles:
  \<open>Rejected m\<close> when \<open>fetch\<close> rejects with an error of message \<open>m\<close>;
  \<open>Responded status body\<close> when a response of that status arrives, its body \<open>Inr data\<close>
  when it parses to \<open>data\<close> and \<open>Inl m\<close> when reading it throws an error of message \<open>m\<close>.
\<close>

datatype 'a fetched = Rejected string | Responded nat "string + 'a"

text \<open>\<open>response.ok\<close>\<close>

definition ok :: "nat \<Rightarrow> bool" where
  "ok status = (200 \<le> status \<and> status \<le> 299)"

text \<open>
  \<open>error.message\<close>: a message the platform or the server gave, or one of the two
  template strings \<open>Validation failed: ${status}\<close> and
  \<open>Architecture suggestion failed: ${status}\<close>.
\<close>

datatype message = Message string | ValidationFailed nat | SuggestionFailed nat

text \<open>The calls of \<open>console.error\<close>, by their first argument.\<close>

datatype logEntry =
    ComponentValidationError message
  | ArchitectureSuggestionError message

text \<open>The POST requests, by endpoint, with the fields of their JSON body.\<close>

datatype request =
    ValidateComponents "string list"
  | SuggestArchitecture string "string list"

text \<open>The response bodies; an absent or \<open>null\<close> field is \<open>None\<close>.\<close>

record validateData =
  validation_results :: "(string \<times> ValidationResult) list option"
  error :: "string option"

record suggestData =
  suggestions :: "Suggestion list option"
  imports_needed :: "string list option"
  error :: "string option"

text \<open>
  The objects the service functions return. An object with string keys is a list of
  key-value pairs in the order of \<open>Object.values\<close>.
\<close>

record azureValidation =
  success :: bool
  validationResults :: "(string \<times> ValidationResult) list"
  error :: "message option"

record textValidation =
  success :: bool
  validationResults :: "(string \<times> ValidationResult) list"
  error :: "message option"
  detectedComponents :: "string list"

record architectureSuggestions =
  success :: bool
  suggestions :: "Suggestion list"
  importsNeeded :: "string list"
  error :: "message option"

text \<open>\<open>data.error || null\<close>: the empty string is falsy.\<close>

definition orNull :: "string option \<Rightarrow> message option" where
  "orNull e = (case e of None \<Rightarrow> None | Some m \<Rightarrow> if m = [] then None else Some (Message m))"

text \<open>\<open>validateAzureComponents\<close>: the request it sends.\<close>

definition validateAzureComponents_request :: "string list \<Rightarrow> request" where
  "validateAzureComponents_request componentNames = ValidateComponents componentNames"

text \<open>
  \<open>validateAzureComponents\<close> from the point where the request has settled: the object
  it returns and what it logs. Every error thrown in the \<open>try\<close> block (the rejection,
  the \<open>throw\<close> on \<open>!response.ok\<close>, a body that cannot be read) ends in the \<open>catch\<close>.
\<close>

definition validateAzureComponents_catch :: "message \<Rightarrow> azureValidation \<times> logEntry list" where
  "validateAzureComponents_catch e =
     (\<lparr>azureValidation.success = False, validationResults = [], error = Some e\<rparr>,
      [ComponentValidationError e])"

definition validateAzureComponents_settled ::
    "validateData fetched \<Rightarrow> azureValidation \<times> logEntry list" where
  "validateAzureComponents_settled outcome =
     (case outcome of
        Rejected m \<Rightarrow> validateAzureComponents_catch (Message m)
      | Responded status body \<Rightarrow>
          if \<not> ok status then validateAzureComponents_catch (ValidationFailed status)
          else (case body of
                  Inl m \<Rightarrow> validateAzureComponents_catch (Message m)
                | Inr data \<Rightarrow>
                    (\<lparr>azureValidation.success = True,
                      validationResults =
                        (case validation_results data of None \<Rightarrow> [] | Some r \<Rightarrow> r),
                      error = orNull (validateData.error data)\<rparr>,
                     [])))"

text \<open>\<open>getArchitectureSuggestions\<close>, in the same two parts.\<close>

definition defaultArchitectureTypes :: "string list" where
  "defaultArchitectureTypes = [''frontend'', ''backend'', ''database'', ''cache'']"

definition getArchitectureSuggestions_request :: "string \<Rightarrow> string list \<Rightarrow> request" where
  "getArchitectureSuggestions_request description architectureTypes =
     SuggestArchitecture description architectureTypes"

definition getArchitectureSuggestions_catch ::
    "message \<Rightarrow> architectureSuggestions \<times> logEntry list" where
  "getArchitectureSuggestions_catch e =
     (\<lparr>architectureSuggestions.success = False, suggestions = [], importsNeeded = [],
       error = Some e\<rparr>,
      [ArchitectureSuggestionError e])"

definition getArchitectureSuggestions_settled ::
    "suggestData fetched \<Rightarrow> architectureSuggestions \<times> logEntry list" where
  "getArchitectureSuggestions_settled outcome =
     (case outcome of
        Rejected m \<Rightarrow> getArchitectureSuggestions_catch (Message m)
      | Responded status body \<Rightarrow>
          if \<not> ok status then getArchitectureSuggestions_catch (SuggestionFailed status)
          else (case body of
                  Inl m \<Rightarrow> getArchitectureSuggestions_catch (Message m)
                | Inr data \<Rightarrow>
                    (\<lparr>architectureSuggestions.success = True,
                      suggestions =
                        (case suggestData.suggestions data of None \<Rightarrow> [] | Some l \<Rightarrow> l),
                      importsNeeded =
                        (case imports_needed data of None \<Rightarrow> [] | Some l \<Rightarrow> l),
                      error = orNull (suggestData.error data)\<rparr>,
                     [])))"

text \<open>\<open>validateTextComponents\<close>: the dictionary and the detection.\<close>

definition azureKeywords :: "string list" where
  "azureKeywords =
     [''AppServices'', ''ContainerApps'', ''ACR'', ''AKS'', ''FunctionApps'',
      ''SQLDatabases'', ''CosmosDb'', ''CacheForRedis'', ''BlobStorage'',
      ''KeyVaults'', ''StaticWebApps'', ''ApplicationGateway'', ''LoadBalancer'']"

definition detectComponents :: "string \<Rightarrow> string list" where
  "detectComponents text =
     filter (\<lambda>keyword. includesStr (toLowerCase text) (toLowerCase keyword)) azureKeywords"

text \<open>What it returns without a request when nothing is detected.\<close>

definition noComponents :: textValidation where
  "noComponents =
     \<lparr>textValidation.success = True, validationResults = [], error = None,
      detectedComponents = []\<rparr>"

text \<open>\<open>{...validation, detectedComponents}\<close>\<close>

definition withDetected :: "azureValidation \<Rightarrow> string list \<Rightarrow> textValidation" where
  "withDetected validation detected =
     \<lparr>textValidation.success = azureValidation.success validation,
      validationResults = azureValidation.validationResults validation,
      error = azureValidation.error validation,
      detectedComponents = detected\<rparr>"


section \<open>ValidationPanel.jsx\<close>

text \<open>The object passed to \<open>onValidationChange\<close>.\<close>

record ValidationState =
  validationResults :: "(string \<times> ValidationResult) list"
  suggestions :: "Suggestion list"
  hasErrors :: bool

text \<open>
  A call of \<open>validateDescription\<close> that has started and waits at one of its two
  \<open>await\<close>s, with what its closure holds: the description it was created with and,
  at the second \<open>await\<close>, the result of the first.
\<close>

datatype cycle =
    AwaitingValidation string "string list"
  | AwaitingSuggestions string textValidation

text \<open>
  The component with its surroundings: the two props (\<open>onValidationChange\<close> as
  whether it was given), the four pieces of state, the timer set by the effect (with
  the description its callback closes over), the calls of \<open>validateDescription\<close> in
  flight, numbered in the order they started, and what the component has done to the
  outside: the calls of \<open>onValidationChange\<close>, the requests sent, the console.
\<close>

record ValidationPanel =
  description :: string
  onValidationChange :: bool
  validationResults :: "(string \<times> ValidationResult) list"
  suggestions :: "Suggestion list"
  isValidating :: bool
  detectedComponents :: "string list"
  debounceTimer :: "string option"
  inFlight :: "nat \<rightharpoonup> cycle"
  started :: nat
  published :: "ValidationState list"
  fetches :: "request list"
  console :: "logEntry list"

text \<open>
  \<open>validateDescription\<close> from \<open>await validateTextComponents(description)\<close> on, up to
  the request of \<open>getArchitectureSuggestions(description)\<close>, which it then awaits.
\<close>

definition validateDescription_validated ::
    "nat \<Rightarrow> string \<Rightarrow> textValidation \<Rightarrow> ValidationPanel \<Rightarrow> ValidationPanel" where
  "validateDescription_validated n d componentValidation p =
     p\<lparr>ValidationPanel.validationResults := textValidation.validationResults componentValidation,
       detectedComponents := textValidation.detectedComponents componentValidation,
       fetches := fetches p @ [getArchitectureSuggestions_request d defaultArchitectureTypes],
       inFlight := (inFlight p)(n \<mapsto> AwaitingSuggestions d componentValidation)\<rparr>"

text \<open>
  \<open>validateDescription\<close> from its start to its first wait. With nothing detected,
  \<open>validateTextComponents\<close> returns without a request and the call goes on, before any
  other event is handled, to the request for suggestions.
\<close>

definition validateDescription_start :: "string \<Rightarrow> ValidationPanel \<Rightarrow> ValidationPanel" where
  "validateDescription_start d p =
     (if d = [] \<or> length d < 10 then p
      else
        (let n = started p;
             p1 = p\<lparr>isValidating := True, started := n + 1\<rparr>;
             detected = detectComponents d
         in if length detected = 0 then validateDescription_validated n d noComponents p1
            else p1\<lparr>fetches := fetches p1 @ [validateAzureComponents_request detected],
                    inFlight := (inFlight p1)(n \<mapsto> AwaitingValidation d detected)\<rparr>))"

text \<open>The object literal that \<open>validateDescription\<close> passes to \<open>onValidationChange\<close>.\<close>

definition notification :: "textValidation \<Rightarrow> architectureSuggestions \<Rightarrow> ValidationState" where
  "notification componentValidation archSuggestions =
     \<lparr>ValidationState.validationResults = textValidation.validationResults componentValidation,
      suggestions = architectureSuggestions.suggestions archSuggestions,
      hasErrors =
        list_ex (\<lambda>r. \<not> valid r)
          (map snd (textValidation.validationResults componentValidation))\<rparr>"

text \<open>
  \<open>validateDescription\<close> from the result of \<open>getArchitectureSuggestions\<close> to its end:
  \<open>setSuggestions\<close>, the notification of the parent, and the \<open>finally\<close> block.
\<close>

definition validateDescription_suggested ::
    "nat \<Rightarrow> textValidation \<Rightarrow> architectureSuggestions \<Rightarrow> ValidationPanel \<Rightarrow> ValidationPanel" where
  "validateDescription_suggested n componentValidation archSuggestions p =
     p\<lparr>ValidationPanel.suggestions := take 5 (architectureSuggestions.suggestions archSuggestions),
       published :=
         (if onValidationChange p
          then published p @ [notification componentValidation archSuggestions]
          else published p),
       isValidating := False,
       inFlight := (inFlight p)(n := None)\<rparr>"

text \<open>
  What happens to the component: the description changes (the effect's cleanup clears
  the timer, the effect sets a new one), the timer fires after its 1000 ms, the
  validation request of call \<open>n\<close> settles, the suggestion request of call \<open>n\<close> settles.
\<close>

datatype event =
    Edit string
  | TimerFires
  | ValidationSettles nat "validateData fetched"
  | SuggestionsSettle nat "suggestData fetched"

fun step :: "event \<Rightarrow> ValidationPanel \<Rightarrow> ValidationPanel" where
  "step (Edit d) p =
     (if d = description p then p else p\<lparr>description := d, debounceTimer := Some d\<rparr>)"
| "step TimerFires p =
     (case debounceTimer p of
        None \<Rightarrow> p
      | Some d \<Rightarrow> validateDescription_start d (p\<lparr>debounceTimer := None\<rparr>))"
| "step (ValidationSettles n outcome) p =
     (case inFlight p n of
        Some (AwaitingValidation d detected) \<Rightarrow>
          (let (validation, logged) = validateAzureComponents_settled outcome
           in validateDescription_validated n d (withDetected validation detected)
                (p\<lparr>console := console p @ logged\<rparr>))
      | _ \<Rightarrow> p)"
| "step (SuggestionsSettle n outcome) p =
     (case inFlight p n of
        Some (AwaitingSuggestions d componentValidation) \<Rightarrow>
          (let (archSuggestions, logged) = getArchitectureSuggestions_settled outcome
           in validateDescription_suggested n componentValidation archSuggestions
                (p\<lparr>console := console p @ logged\<rparr>))
      | _ \<Rightarrow> p)"

definition run :: "event list \<Rightarrow> ValidationPanel \<Rightarrow> ValidationPanel" where
  "run es p = fold step es p"

text \<open>
  The component as mounted by the page: an empty description, the page's
  \<open>setValidationState\<close> as \<open>onValidationChange\<close>, and the timer of the first effect.
\<close>

definition mounted :: ValidationPanel where
  "mounted =
     \<lparr>description = [], onValidationChange = True, validationResults = [], suggestions = [],
      isValidating = False, detectedComponents = [], debounceTimer = Some [],
      inFlight = Map.empty, started = 0, published = [], fetches = [], console = []\<rparr>"


section \<open>Notions of the specification\<close>

text \<open>
  Modelled from the claim's words, for comparison with the code's test: the host of a
  reference that starts with \<open>https://\<close> is what stands between that prefix and the next
  \<open>/\<close>, \<open>?\<close> or \<open>#\<close>.
\<close>

definition hostOfHttpsUrl :: "string \<Rightarrow> string" where
  "hostOfHttpsUrl u = takeWhile (\<lambda>c. c \<notin> set ''/?#'') (drop (length ''https://'') u)"

text \<open>
  Two characters are equal up to case when they are the same character or one is a
  capital letter (\<open>A\<close>..\<open>Z\<close>, or a Latin-1 capital) and the other the small letter 32
  code units above it. This is stated without the code's \<open>toLowerCase\<close>.
\<close>

definition isCapital :: "char \<Rightarrow> bool" where
  "isCapital c =
     ((65 \<le> (of_char c :: nat) \<and> (of_char c :: nat) \<le> 90)
      \<or> (192 \<le> (of_char c :: nat) \<and> (of_char c :: nat) \<le> 222 \<and> (of_char c :: nat) \<noteq> 215))"

definition equalIgnoringCase :: "char \<Rightarrow> char \<Rightarrow> bool" where
  "equalIgnoringCase a b =
     (a = b
      \<or> (isCapital a \<and> (of_char b :: nat) = of_char a + 32)
      \<or> (isCapital b \<and> (of_char a :: nat) = of_char b + 32))"

text \<open>
  A keyword occurs in a text, ignoring case: at some position every character of the
  keyword equals the text's character up to case.
\<close>

definition occursIgnoringCase :: "string \<Rightarrow> string \<Rightarrow> bool" where
  "occursIgnoringCase keyword text =
     (\<exists>i. i + length keyword \<le> length text
        \<and> (\<forall>j < length keyword. equalIgnoringCase (text ! (i + j)) (keyword ! j)))"

text \<open>
  A failed external call: the request is rejected or answered with a status outside
  200..299.
\<close>

definition failed :: "'a fetched \<Rightarrow> bool" where
  "failed outcome = (case outcome of Rejected m \<Rightarrow> True | Responded status body \<Rightarrow> \<not> ok status)"

text \<open>
  What the two service functions return for a settled request: the \<open>suggestions\<close> of
  \<open>getArchitectureSuggestions\<close> and the \<open>validationResults\<close> of
  \<open>validateAzureComponents\<close>.
\<close>

definition returnedSuggestions :: "suggestData fetched \<Rightarrow> Suggestion list" where
  "returnedSuggestions outcome =
     architectureSuggestions.suggestions (fst (getArchitectureSuggestions_settled outcome))"

definition returnedResults :: "validateData fetched \<Rightarrow> (string \<times> ValidationResult) list" where
  "returnedResults outcome =
     azureValidation.validationResults (fst (validateAzureComponents_settled outcome))"


section \<open>Responses used in the examples\<close>

text \<open>
  Bodies as the two endpoints send them: validation results for detected names, one of
  them invalid; a list of six suggestions; a body without suggestions.
\<close>

definition invalidAppServices :: "validateData fetched" where
  "invalidAppServices =
     Responded 200
       (Inr \<lparr>validation_results =
               Some [(''AppServices'',
                      \<lparr>valid = False, canonical = ''AppServices'', submodule = ''unknown''\<rparr>)],
             error = None\<rparr>)"

definition sixSuggestions :: "suggestData fetched" where
  "sixSuggestions =
     Responded 200
       (Inr \<lparr>suggestData.suggestions =
               Some (map (\<lambda>c. \<lparr>component = c, usage = ''hosting'', submodule = ''web''\<rparr>)
                       [''A'', ''B'', ''C'', ''D'', ''E'', ''F'']),
             imports_needed = None, error = None\<rparr>)"

definition noSuggestions :: "suggestData fetched" where
  "noSuggestions =
     Responded 200 (Inr \<lparr>suggestData.suggestions = None, imports_needed = None, error = None\<rparr>)"

definition twoResults :: "validateData fetched" where
  "twoResults =
     Responded 200
       (Inr \<lparr>validation_results =
               Some [(''AppServices'',
                      \<lparr>valid = True, canonical = ''AppServices'', submodule = ''web''\<rparr>),
                     (''CosmosDb'',
                      \<lparr>valid = False, canonical = ''CosmosDb'', submodule = ''unknown''\<rparr>)],
             error = None\<rparr>)"

definition validAppServices :: "validateData fetched" where
  "validAppServices =
     Responded 200
       (Inr \<lparr>validation_results =
               Some [(''AppServices'',
                      \<lparr>valid = True, canonical = ''AppServices'', submodule = ''web''\<rparr>)],
             error = None\<rparr>)"


section \<open>Facts about the string functions\<close>

lemma endsWith_append: "endsWith (b @ suf) suf"
  by (simp add: endsWith_def)

lemma replaceAtEnd_append: "replaceAtEnd suf (b @ suf) = b"
  by (simp add: replaceAtEnd_def endsWith_append)

lemma backendUrl_base: "backendUrl b = b"
  by (simp add: backendUrl_def GENERATE_ARCHITECTURE_def replaceAtEnd_append)


section \<open>The first resolved URL\<close>

lemma setDiagramUrl_unchanged: "setDiagramUrl b (diagramUrl s) s = s"
  by (simp add: setDiagramUrl_def)

text \<open>
  Claim C1. For every (non-empty) diagram reference that is newly set, that is, differs
  from the one the page holds, the first resolved URL follows the classification: a
  reference that starts with \<open>https://\<close> and contains \<open>.blob.core.windows.net\<close> resolves to
  \<open>backendBaseURL/api/proxy/diagram?url=encodeURIComponent(reference)\<close>, any other
  reference to \<open>backendBaseURL\<close> followed by the reference; \<open>backendBaseURL\<close> is the
  generation endpoint's URL without its suffix \<open>/api/generate-architecture\<close>.
\<close>

theorem first_resolved_url_by_classification:
  assumes "u \<noteq> []" and "u \<noteq> diagramUrl s"
  shows "backendUrl b @ ''/api/generate-architecture'' = GENERATE_ARCHITECTURE b
       \<and> (isAzureStorageUrl u \<longrightarrow>
            resolvedDiagramUrl (setDiagramUrl b u s)
              = backendUrl b @ ''/api/proxy/diagram?url='' @ encodeURIComponent u)
       \<and> (\<not> isAzureStorageUrl u \<longrightarrow>
            resolvedDiagramUrl (setDiagramUrl b u s) = backendUrl b @ u)"
  using assms
  by (simp add: setDiagramUrl_def diagramUrlEffect_def backendUrl_base
      GENERATE_ARCHITECTURE_def)

theorem first_resolved_url_by_classification_witness:
  "resolvedDiagramUrl
     (setDiagramUrl ''http://backend'' ''https://store.blob.core.windows.net/diagrams/x.png''
        initialDashboard)
     = ''http://backend/api/proxy/diagram?url=https%3A%2F%2Fstore.blob.core.windows.net%2Fdiagrams%2Fx.png''
   \<and> resolvedDiagramUrl
         (setDiagramUrl ''http://backend'' ''/static/diagrams/x.png'' initialDashboard)
     = ''http://backend/static/diagrams/x.png''"
  using first_resolved_url_by_classification
          [where u = "''https://store.blob.core.windows.net/diagrams/x.png''"
             and b = "''http://backend''" and s = initialDashboard]
        first_resolved_url_by_classification
          [where u = "''/static/diagrams/x.png''" and b = "''http://backend''"
             and s = initialDashboard]
  by (simp add: isAzureStorageUrl_def startsWith_def backendUrl_base encodeURIComponent_def
      encodeChar_def uriUnreserved_def percentByte_def hexDigit_def initialDashboard_def)


section \<open>Which references are proxied first\<close>

lemma length_encodeChar: "1 \<le> length (encodeChar c)"
  by (simp add: encodeChar_def percentByte_def Let_def)

lemma length_encodeURIComponent: "length u \<le> length (encodeURIComponent u)"
proof (induction u)
  case Nil
  show ?case by (simp add: encodeURIComponent_def)
next
  case (Cons c u)
  have "length (encodeURIComponent (c # u)) = length (encodeChar c) + length (encodeURIComponent u)"
    by (simp add: encodeURIComponent_def)
  with Cons length_encodeChar [of c] show ?case by simp
qed

lemma proxy_path_not_reference: "''/api/proxy/diagram?url='' @ encodeURIComponent u \<noteq> u"
proof
  assume "''/api/proxy/diagram?url='' @ encodeURIComponent u = u"
  then have "length (''/api/proxy/diagram?url='' @ encodeURIComponent u) = length u"
    by simp
  with length_encodeURIComponent [of u] show False by simp
qed

lemma buildProxyUrl_not_direct: "buildProxyUrl b u \<noteq> backendUrl b @ u"
  using proxy_path_not_reference [of u] by (simp add: buildProxyUrl_def)

lemma buildProxyUrl_not_reference: "buildProxyUrl b u \<noteq> u"
proof
  assume "buildProxyUrl b u = u"
  then have "length (buildProxyUrl b u) = length u" by simp
  with length_encodeURIComponent [of u] show False
    by (simp add: buildProxyUrl_def)
qed

text \<open>
  Claim C10 as stated fails: the code looks for \<open>.blob.core.windows.net\<close> in the whole
  reference, not in its host. The reference below has the host \<open>cdn.example.com\<close>, which
  does not contain the pattern, and is proxied all the same because its path does.
\<close>

theorem host_without_pattern_is_proxied:
  "startsWith ''https://cdn.example.com/mirror.blob.core.windows.net/x.png'' ''https://''
   \<and> hostOfHttpsUrl ''https://cdn.example.com/mirror.blob.core.windows.net/x.png''
       = ''cdn.example.com''
   \<and> \<not> includesStr
         (hostOfHttpsUrl ''https://cdn.example.com/mirror.blob.core.windows.net/x.png'')
         ''.blob.core.windows.net''
   \<and> resolvedDiagramUrl
        (setDiagramUrl ''http://backend''
           ''https://cdn.example.com/mirror.blob.core.windows.net/x.png'' initialDashboard)
       \<noteq> backendUrl ''http://backend''
            @ ''https://cdn.example.com/mirror.blob.core.windows.net/x.png''
   \<and> resolvedDiagramUrl
        (setDiagramUrl ''http://backend''
           ''https://cdn.example.com/mirror.blob.core.windows.net/x.png'' initialDashboard)
       = ''http://backend/api/proxy/diagram?url=https%3A%2F%2Fcdn.example.com%2Fmirror.blob.core.windows.net%2Fx.png''"
  by (simp add: hostOfHttpsUrl_def setDiagramUrl_def diagramUrlEffect_def
      isAzureStorageUrl_def startsWith_def backendUrl_base initialDashboard_def
      encodeURIComponent_def encodeChar_def uriUnreserved_def percentByte_def hexDigit_def)

text \<open>
  Claim C10, amended. A non-empty, newly set reference that does not start with \<open>https://\<close>, or
  that does not contain \<open>.blob.core.windows.net\<close> anywhere in the string (host, path or
  query), takes the relative-path branch: its first resolved URL is \<open>backendBaseURL\<close>
  followed by the entire reference. The first resolved URL is the proxied URL exactly
  for the references that start with \<open>https://\<close> and contain \<open>.blob.core.windows.net\<close>.
\<close>

theorem proxied_first_iff_https_and_blob:
  assumes "u \<noteq> []" and "u \<noteq> diagramUrl s"
  shows "(\<not> startsWith u ''https://'' \<or> \<not> includesStr u ''.blob.core.windows.net''
            \<longrightarrow> resolvedDiagramUrl (setDiagramUrl b u s) = backendUrl b @ u)
       \<and> ((resolvedDiagramUrl (setDiagramUrl b u s) = buildProxyUrl b u)
            = (startsWith u ''https://'' \<and> includesStr u ''.blob.core.windows.net''))"
proof (cases "isAzureStorageUrl u")
  case True
  with assms show ?thesis
    by (simp add: setDiagramUrl_def diagramUrlEffect_def buildProxyUrl_def isAzureStorageUrl_def)
next
  case False
  with assms have r: "resolvedDiagramUrl (setDiagramUrl b u s) = backendUrl b @ u"
    by (simp add: setDiagramUrl_def diagramUrlEffect_def)
  from False have n: "\<not> (startsWith u ''https://'' \<and> includesStr u ''.blob.core.windows.net'')"
    by (simp add: isAzureStorageUrl_def)
  from buildProxyUrl_not_direct [of b u] have "backendUrl b @ u \<noteq> buildProxyUrl b u"
    by (rule not_sym)
  with r n show ?thesis by simp
qed

theorem proxied_first_iff_https_and_blob_witness:
  "resolvedDiagramUrl
     (setDiagramUrl ''http://backend'' ''https://cdn.example.com/x.png'' initialDashboard)
     = ''http://backendhttps://cdn.example.com/x.png''
   \<and> resolvedDiagramUrl
       (setDiagramUrl ''http://backend'' ''https://cdn.example.com/x.png'' initialDashboard)
     \<noteq> buildProxyUrl ''http://backend'' ''https://cdn.example.com/x.png''"
  using proxied_first_iff_https_and_blob
          [where u = "''https://cdn.example.com/x.png''" and b = "''http://backend''"
             and s = initialDashboard]
  by (auto simp add: startsWith_def backendUrl_base initialDashboard_def)


section \<open>The fallback after a failed load\<close>

text \<open>
  Where the handler's test (\<open>https://\<close> alone) agrees with the effect's classification,
  the fallback differs from the URL that failed.
\<close>

lemma fallback_differs_for_storage_url:
  assumes "isAzureStorageUrl u" and "u \<noteq> diagramUrl s"
  shows "resolvedDiagramUrl (onError b (setDiagramUrl b u s)) = u
       \<and> resolvedDiagramUrl (setDiagramUrl b u s) = buildProxyUrl b u
       \<and> resolvedDiagramUrl (onError b (setDiagramUrl b u s))
           \<noteq> resolvedDiagramUrl (setDiagramUrl b u s)"
proof -
  from assms(1) have h: "startsWith u ''https://''" and ne: "u \<noteq> []"
    by (auto simp: isAzureStorageUrl_def startsWith_def)
  from assms ne have first: "setDiagramUrl b u s
      = s\<lparr>diagramUrl := u, resolvedDiagramUrl := buildProxyUrl b u, diagramTriedProxy := False\<rparr>"
    by (simp add: setDiagramUrl_def diagramUrlEffect_def buildProxyUrl_def)
  from h have second: "resolvedDiagramUrl (onError b (setDiagramUrl b u s)) = u"
    by (simp add: first onError_def)
  from buildProxyUrl_not_reference [of b u] have "u \<noteq> buildProxyUrl b u"
    by (rule not_sym)
  with second show ?thesis by (simp add: first)
qed

lemma fallback_differs_for_non_https:
  assumes "u \<noteq> []" and "\<not> startsWith u ''https://''" and "u \<noteq> diagramUrl s"
  shows "resolvedDiagramUrl (setDiagramUrl b u s) = backendUrl b @ u
       \<and> resolvedDiagramUrl (onError b (setDiagramUrl b u s)) = buildProxyUrl b u
       \<and> resolvedDiagramUrl (onError b (setDiagramUrl b u s))
           \<noteq> resolvedDiagramUrl (setDiagramUrl b u s)"
proof -
  from assms have first: "setDiagramUrl b u s
      = s\<lparr>diagramUrl := u, resolvedDiagramUrl := backendUrl b @ u, diagramTriedProxy := False\<rparr>"
    by (simp add: setDiagramUrl_def diagramUrlEffect_def isAzureStorageUrl_def)
  from assms have second: "resolvedDiagramUrl (onError b (setDiagramUrl b u s)) = buildProxyUrl b u"
    by (simp add: first onError_def)
  with buildProxyUrl_not_direct [of b u] show ?thesis by (simp add: first)
qed

text \<open>
  Claim C3 at a reference that starts with \<open>https://\<close> and is not a storage URL, with
  \<open>API_BASE_URL\<close> unset (\<open>''\<close>): the effect resolves it through the relative-path branch
  to the reference itself, and after the first failed load the handler, which tests
  \<open>https://\<close> alone, sets the same URL again. The URL issued after the failure is the one
  that failed, and it is not the proxied URL.
\<close>

theorem fallback_repeats_failed_url:
  "resolvedDiagramUrl
     (setDiagramUrl [] ''https://cdn.example.com/diagrams/x.png'' initialDashboard)
     = ''https://cdn.example.com/diagrams/x.png''
   \<and> resolvedDiagramUrl
       (onError [] (setDiagramUrl [] ''https://cdn.example.com/diagrams/x.png'' initialDashboard))
     = ''https://cdn.example.com/diagrams/x.png''
   \<and> diagramTriedProxy
       (onError [] (setDiagramUrl [] ''https://cdn.example.com/diagrams/x.png'' initialDashboard))
   \<and> resolvedDiagramUrl
       (onError [] (setDiagramUrl [] ''https://cdn.example.com/diagrams/x.png'' initialDashboard))
     \<noteq> buildProxyUrl [] ''https://cdn.example.com/diagrams/x.png''"
  by (simp add: setDiagramUrl_def diagramUrlEffect_def onError_def isAzureStorageUrl_def
      startsWith_def backendUrl_base initialDashboard_def buildProxyUrl_def)


section \<open>After the second failed load\<close>

lemma onError_tried:
  "diagramTriedProxy s \<Longrightarrow>
     onError b s = s\<lparr>imgDisplayNone := True, siblingDisplayBlock := True\<rparr>"
  by (simp add: onError_def)

lemma onError_sets_tried: "diagramTriedProxy (onError b s)"
  by (simp add: onError_def Let_def)

lemma onError_exhausted_stays:
  assumes "diagramTriedProxy s" and "imgDisplayNone s" and "siblingDisplayBlock s"
  shows "(onError b ^^ n) s = s"
proof (induction n)
  case 0
  show ?case by simp
next
  case (Suc n)
  with assms show ?case by (simp add: onError_tried)
qed

text \<open>
  Claim C6. After the second failed load of a reference the resolver issues no third
  URL: the resolved URL stays the one issued after the first failure, however many
  further failures arrive, the retry flag stays set, the image is hidden and the
  "not available" element is shown.
\<close>

theorem second_failure_exhausts:
  assumes "u \<noteq> []"
  shows "resolvedDiagramUrl ((onError b ^^ (n + 2)) (setDiagramUrl b u s))
           = resolvedDiagramUrl (onError b (setDiagramUrl b u s))
       \<and> diagramTriedProxy ((onError b ^^ (n + 2)) (setDiagramUrl b u s))
       \<and> imgDisplayNone ((onError b ^^ (n + 2)) (setDiagramUrl b u s))
       \<and> siblingDisplayBlock ((onError b ^^ (n + 2)) (setDiagramUrl b u s))"
proof -
  let ?s1 = "onError b (setDiagramUrl b u s)"
  let ?s2 = "onError b ?s1"
  have t1: "diagramTriedProxy ?s1" by (rule onError_sets_tried)
  then have s2: "?s2 = ?s1\<lparr>imgDisplayNone := True, siblingDisplayBlock := True\<rparr>"
    by (rule onError_tried)
  have "(onError b ^^ n) ?s2 = ?s2"
    by (rule onError_exhausted_stays) (simp_all add: s2 t1)
  moreover have "(onError b ^^ (n + 2)) (setDiagramUrl b u s) = (onError b ^^ n) ?s2"
    by (simp add: funpow_swap1)
  ultimately have "(onError b ^^ (n + 2)) (setDiagramUrl b u s) = ?s2" by simp
  then show ?thesis by (simp add: s2 t1)
qed

theorem second_failure_exhausts_witness:
  "resolvedDiagramUrl
     ((onError ''http://backend'' ^^ 3)
        (setDiagramUrl ''http://backend'' ''/static/diagrams/x.png'' initialDashboard))
     = ''http://backend/api/proxy/diagram?url=%2Fstatic%2Fdiagrams%2Fx.png''
   \<and> imgDisplayNone
       ((onError ''http://backend'' ^^ 3)
          (setDiagramUrl ''http://backend'' ''/static/diagrams/x.png'' initialDashboard))
   \<and> siblingDisplayBlock
       ((onError ''http://backend'' ^^ 3)
          (setDiagramUrl ''http://backend'' ''/static/diagrams/x.png'' initialDashboard))"
proof -
  have ne: "''/static/diagrams/x.png'' \<noteq> []" by simp
  have fb: "resolvedDiagramUrl
       (onError ''http://backend''
          (setDiagramUrl ''http://backend'' ''/static/diagrams/x.png'' initialDashboard))
     = ''http://backend/api/proxy/diagram?url=%2Fstatic%2Fdiagrams%2Fx.png''"
    by (simp add: setDiagramUrl_def diagramUrlEffect_def onError_def isAzureStorageUrl_def
        startsWith_def backendUrl_base initialDashboard_def buildProxyUrl_def
        encodeURIComponent_def encodeChar_def uriUnreserved_def percentByte_def hexDigit_def)
  have three: "(1::nat) + 2 = 3" by simp
  from second_failure_exhausts
         [OF ne, where b = "''http://backend''" and n = 1 and s = initialDashboard]
  show ?thesis unfolding three fb by simp
qed


section \<open>Detection of component names\<close>

lemma includesStr_iff: "includesStr s p = (\<exists>i. take (length p) (drop i s) = p)"
proof (induction s)
  case Nil
  show ?case by auto
next
  case (Cons c s)
  have "(\<exists>i. take (length p) (drop i (c # s)) = p)
        = (take (length p) (c # s) = p \<or> (\<exists>j. take (length p) (drop j s) = p))"
  proof
    assume "\<exists>i. take (length p) (drop i (c # s)) = p"
    then obtain i where i: "take (length p) (drop i (c # s)) = p" ..
    show "take (length p) (c # s) = p \<or> (\<exists>j. take (length p) (drop j s) = p)"
    proof (cases i)
      case 0
      with i show ?thesis by simp
    next
      case (Suc j)
      with i have "take (length p) (drop j s) = p" by simp
      then show ?thesis by blast
    qed
  next
    assume "take (length p) (c # s) = p \<or> (\<exists>j. take (length p) (drop j s) = p)"
    then show "\<exists>i. take (length p) (drop i (c # s)) = p"
    proof
      assume "take (length p) (c # s) = p"
      then have "take (length p) (drop 0 (c # s)) = p" by simp
      then show ?thesis by blast
    next
      assume "\<exists>j. take (length p) (drop j s) = p"
      then obtain j where "take (length p) (drop j s) = p" ..
      then have "take (length p) (drop (Suc j) (c # s)) = p" by simp
      then show ?thesis by blast
    qed
  qed
  with Cons show ?case by (simp add: startsWith_def)
qed

lemma window_eq_iff:
  assumes "k \<noteq> []"
  shows "(take (length k) (drop i (map f t)) = map f k)
       = (i + length k \<le> length t \<and> (\<forall>j < length k. f (t ! (i + j)) = f (k ! j)))"
proof
  assume eq: "take (length k) (drop i (map f t)) = map f k"
  then have "length (take (length k) (drop i (map f t))) = length k" by simp
  then have "length k \<le> length t - i" by simp
  moreover have "0 < length k" using assms by simp
  ultimately have len: "i + length k \<le> length t" by arith
  have "\<forall>j < length k. f (t ! (i + j)) = f (k ! j)"
  proof (intro allI impI)
    fix j assume j: "j < length k"
    from eq have "take (length k) (drop i (map f t)) ! j = map f k ! j" by simp
    with j len show "f (t ! (i + j)) = f (k ! j)" by simp
  qed
  with len show "i + length k \<le> length t \<and> (\<forall>j < length k. f (t ! (i + j)) = f (k ! j))" ..
next
  assume r: "i + length k \<le> length t \<and> (\<forall>j < length k. f (t ! (i + j)) = f (k ! j))"
  then have "min (length t - i) (length k) = length k" by arith
  with r show "take (length k) (drop i (map f t)) = map f k"
    by (simp add: list_eq_iff_nth_eq)
qed

lemma of_char_toLowerChar:
  "(of_char (toLowerChar c) :: nat) = (if isCapital c then of_char c + 32 else of_char c)"
proof (cases "isCapital c")
  case True
  then have "(of_char c :: nat) + 32 < 256" by (auto simp add: isCapital_def)
  then have "(of_char c + 32) mod 256 = (of_char c :: nat) + 32" by simp
  with True show ?thesis by (auto simp add: toLowerChar_def isCapital_def Let_def)
next
  case False
  then show ?thesis by (auto simp add: toLowerChar_def isCapital_def Let_def)
qed

lemma toLowerChar_eq_iff: "(toLowerChar a = toLowerChar b) = equalIgnoringCase a b"
proof -
  have "(toLowerChar a = toLowerChar b)
      = ((of_char (toLowerChar a) :: nat) = of_char (toLowerChar b))"
    by simp
  also have "\<dots> = equalIgnoringCase a b"
  proof -
    have e: "(a = b) = ((of_char a :: nat) = of_char b)" by simp
    show ?thesis
      unfolding of_char_toLowerChar equalIgnoringCase_def e
      by (auto simp add: isCapital_def)
  qed
  finally show ?thesis .
qed

lemma includes_lower_iff_occurs:
  "includesStr (toLowerCase text) (toLowerCase keyword) = occursIgnoringCase keyword text"
proof (cases "keyword = []")
  case True
  have "take (length (toLowerCase keyword)) (drop 0 (toLowerCase text)) = toLowerCase keyword"
    using True by (simp add: toLowerCase_def)
  then have "includesStr (toLowerCase text) (toLowerCase keyword)"
    unfolding includesStr_iff by blast
  moreover have "occursIgnoringCase keyword text"
    using True by (auto simp add: occursIgnoringCase_def)
  ultimately show ?thesis by simp
next
  case False
  then show ?thesis
    using window_eq_iff [where k = keyword and f = toLowerChar and t = "text"]
    by (simp add: includesStr_iff occursIgnoringCase_def toLowerCase_def toLowerChar_eq_iff)
qed

lemma detectComponents_spec:
  "detectComponents text = filter (\<lambda>keyword. occursIgnoringCase keyword text) azureKeywords"
  by (simp add: detectComponents_def includes_lower_iff_occurs)

lemma detect_scenario:
  "detectComponents ''Use AppServices and CosmosDb with CacheForRedis''
     = [''AppServices'', ''CosmosDb'', ''CacheForRedis'']"
  by code_simp

lemma detect_other_case:
  "detectComponents ''use APPSERVICES and cosmosdb with cacheFORredis''
     = [''AppServices'', ''CosmosDb'', ''CacheForRedis'']"
  by code_simp

lemma detect_split_word: "detectComponents ''Use App Services and Cosmos Db'' = []"
  by code_simp


section \<open>Steps of one call\<close>

lemma step_TimerFires_short:
  assumes "debounceTimer p = Some d" and "length d < 10"
  shows "step TimerFires p = p\<lparr>debounceTimer := None\<rparr>"
  using assms by (simp add: validateDescription_start_def)

lemma published_validated [simp]:
  "published (validateDescription_validated n d cv p) = published p"
  by (simp add: validateDescription_validated_def)

lemma published_start [simp]: "published (validateDescription_start d p) = published p"
  by (simp add: validateDescription_start_def Let_def)

lemma published_suggested:
  "published (validateDescription_suggested n cv sg p)
     = (if onValidationChange p then published p @ [notification cv sg] else published p)"
  by (simp add: validateDescription_suggested_def)

lemma published_step:
  "published (step e p) = published p
   \<or> (\<exists>cv sg. published (step e p) = published p @ [notification cv sg])"
proof (cases e)
  case (Edit d)
  then show ?thesis by simp
next
  case TimerFires
  then show ?thesis by (simp split: option.split)
next
  case (ValidationSettles n outcome)
  then show ?thesis by (simp split: option.split cycle.split prod.split)
next
  case (SuggestionsSettle n outcome)
  then show ?thesis
    by (auto simp: published_suggested split: option.split cycle.split prod.split)
qed

lemma hasErrors_notification:
  "hasErrors (notification cv sg)
     = (\<exists>e \<in> set (ValidationState.validationResults (notification cv sg)). \<not> valid (snd e))"
  by (simp add: notification_def list_ex_iff)

lemma published_run_invariant:
  assumes "\<forall>v \<in> set (published p). P v" and "\<And>cv sg. P (notification cv sg)"
  shows "\<forall>v \<in> set (published (run es p)). P v"
  using assms(1)
proof (induction es arbitrary: p)
  case Nil
  then show ?case by (simp add: run_def)
next
  case (Cons e es)
  have "\<forall>v \<in> set (published (step e p)). P v"
    using published_step [of e p] Cons.prems assms(2) by auto
  then have "\<forall>v \<in> set (published (run es (step e p))). P v" by (rule Cons.IH)
  then show ?case by (simp add: run_def)
qed

lemma step_TimerFires_detected:
  assumes "debounceTimer p = Some d" and "10 \<le> length d" and "detectComponents d \<noteq> []"
  shows "step TimerFires p
       = p\<lparr>debounceTimer := None, isValidating := True, started := started p + 1,
           fetches := fetches p @ [ValidateComponents (detectComponents d)],
           inFlight := (inFlight p)(started p \<mapsto> AwaitingValidation d (detectComponents d))\<rparr>"
  using assms
  by (auto simp add: validateDescription_start_def Let_def validateAzureComponents_request_def)

lemma step_TimerFires_nothing_detected:
  assumes "debounceTimer p = Some d" and "10 \<le> length d" and "detectComponents d = []"
  shows "step TimerFires p
       = p\<lparr>debounceTimer := None, isValidating := True, started := started p + 1,
           ValidationPanel.validationResults := [], detectedComponents := [],
           fetches := fetches p @ [SuggestArchitecture d defaultArchitectureTypes],
           inFlight := (inFlight p)(started p \<mapsto> AwaitingSuggestions d noComponents)\<rparr>"
  using assms
  by (auto simp add: validateDescription_start_def Let_def validateDescription_validated_def
      noComponents_def getArchitectureSuggestions_request_def)

lemma step_ValidationSettles_waiting:
  assumes "inFlight p n = Some (AwaitingValidation d detected)"
  shows "step (ValidationSettles n vo) p
       = p\<lparr>console := console p @ snd (validateAzureComponents_settled vo),
           ValidationPanel.validationResults := returnedResults vo,
           detectedComponents := detected,
           fetches := fetches p @ [SuggestArchitecture d defaultArchitectureTypes],
           inFlight := (inFlight p)
             (n \<mapsto> AwaitingSuggestions d
                    (withDetected (fst (validateAzureComponents_settled vo)) detected))\<rparr>"
  using assms
  by (simp add: validateDescription_validated_def withDetected_def returnedResults_def
      getArchitectureSuggestions_request_def split: prod.split)

lemma step_SuggestionsSettle_waiting:
  assumes "inFlight p n = Some (AwaitingSuggestions d cv)"
  shows "step (SuggestionsSettle n so) p
       = p\<lparr>console := console p @ snd (getArchitectureSuggestions_settled so),
           ValidationPanel.suggestions := take 5 (returnedSuggestions so),
           published :=
             (if onValidationChange p
              then published p @ [notification cv (fst (getArchitectureSuggestions_settled so))]
              else published p),
           isValidating := False,
           inFlight := (inFlight p)(n := None)\<rparr>"
  using assms
  by (simp add: validateDescription_suggested_def returnedSuggestions_def split: prod.split)



lemma two_calls_settle:
  assumes "inFlight p n = Some (AwaitingValidation d detected)"
  shows "run [ValidationSettles n vo, SuggestionsSettle n so] p
       = p\<lparr>console := console p @ snd (validateAzureComponents_settled vo)
                         @ snd (getArchitectureSuggestions_settled so),
           ValidationPanel.validationResults := returnedResults vo,
           detectedComponents := detected,
           fetches := fetches p @ [SuggestArchitecture d defaultArchitectureTypes],
           ValidationPanel.suggestions := take 5 (returnedSuggestions so),
           published :=
             (if onValidationChange p
              then published p @
                     [\<lparr>ValidationState.validationResults = returnedResults vo,
                       suggestions = returnedSuggestions so,
                       hasErrors = list_ex (\<lambda>r. \<not> valid r) (map snd (returnedResults vo))\<rparr>]
              else published p),
           isValidating := False,
           inFlight := (inFlight p)(n := None)\<rparr>"
proof -
  let ?p1 = "step (ValidationSettles n vo) p"
  have w: "inFlight ?p1 n
      = Some (AwaitingSuggestions d (withDetected (fst (validateAzureComponents_settled vo)) detected))"
    unfolding step_ValidationSettles_waiting [OF assms] by simp
  have "run [ValidationSettles n vo, SuggestionsSettle n so] p = step (SuggestionsSettle n so) ?p1"
    by (simp add: run_def)
  also have "\<dots> = ?p1\<lparr>console := console ?p1 @ snd (getArchitectureSuggestions_settled so),
           ValidationPanel.suggestions := take 5 (returnedSuggestions so),
           published :=
             (if onValidationChange ?p1
              then published ?p1 @ [notification (withDetected (fst (validateAzureComponents_settled vo)) detected) (fst (getArchitectureSuggestions_settled so))]
              else published ?p1),
           isValidating := False,
           inFlight := (inFlight ?p1)(n := None)\<rparr>"
    by (rule step_SuggestionsSettle_waiting [OF w])
  finally show ?thesis
    unfolding step_ValidationSettles_waiting [OF assms]
    by (simp add: notification_def withDetected_def returnedResults_def returnedSuggestions_def)
qed

section \<open>Evaluating the examples\<close>

lemma detect_AppServices: "detectComponents ''Use AppServices'' = [''AppServices'']"
  by code_simp

lemma detect_AppServices_CosmosDb:
  "detectComponents ''Use AppServices and CosmosDb'' = [''AppServices'', ''CosmosDb'']"
  by code_simp

lemmas panel_eval =
  run_def mounted_def Let_def validateDescription_start_def validateDescription_validated_def
  validateDescription_suggested_def notification_def withDetected_def noComponents_def
  validateAzureComponents_request_def validateAzureComponents_settled_def
  validateAzureComponents_catch_def getArchitectureSuggestions_request_def
  getArchitectureSuggestions_settled_def getArchitectureSuggestions_catch_def
  defaultArchitectureTypes_def ok_def orNull_def returnedSuggestions_def returnedResults_def
  failed_def invalidAppServices_def validAppServices_def twoResults_def sixSuggestions_def
  noSuggestions_def

lemma detect_plain: "detectComponents ''a plain web site'' = []"
  by code_simp


section \<open>Texts shorter than ten characters\<close>

text \<open>
  Claim C9. When the debounce timer fires for a text shorter than 10 characters the
  orchestrator stays idle: the only change is that the timer is gone. No request is
  sent, neither to the validation endpoint nor to the suggestion endpoint, no call
  goes in flight and nothing is published.
\<close>

theorem short_text_stays_idle:
  assumes "debounceTimer p = Some d" and "length d < 10"
  shows "step TimerFires p = p\<lparr>debounceTimer := None\<rparr>
       \<and> fetches (step TimerFires p) = fetches p
       \<and> inFlight (step TimerFires p) = inFlight p
       \<and> published (step TimerFires p) = published p"
  unfolding step_TimerFires_short [OF assms] by simp

lemma edit_short_on_mounted:
  "debounceTimer (step (Edit ''too short'') mounted) = Some ''too short''
   \<and> fetches (step (Edit ''too short'') mounted) = []
   \<and> published (step (Edit ''too short'') mounted) = []"
  by (simp add: panel_eval detect_AppServices detect_AppServices_CosmosDb detect_plain)

theorem short_text_stays_idle_witness:
  "fetches (step TimerFires (step (Edit ''too short'') mounted)) = []
   \<and> published (step TimerFires (step (Edit ''too short'') mounted)) = []"
proof -
  have t: "debounceTimer (step (Edit ''too short'') mounted) = Some ''too short''"
    using edit_short_on_mounted by blast
  have l: "length ''too short'' < 10" by simp
  from short_text_stays_idle [OF t l] edit_short_on_mounted show ?thesis by simp
qed

section \<open>The error flag of a published state\<close>

text \<open>
  Claim C5. In every ValidationState that the panel publishes, along any sequence of
  events from the mounted component, \<open>hasErrors\<close> is the disjunction of \<open>\<not> valid\<close>
  over the entries of the \<open>validationResults\<close> of that same state: true if and only
  if some entry is not valid, and so false for an empty map.
\<close>

theorem hasErrors_is_or_of_invalid:
  assumes "v \<in> set (published (run es mounted))"
  shows "hasErrors v = (\<exists>e \<in> set (ValidationState.validationResults v). \<not> valid (snd e))"
proof -
  have "\<forall>v \<in> set (published (run es mounted)).
          hasErrors v = (\<exists>e \<in> set (ValidationState.validationResults v). \<not> valid (snd e))"
    by (rule published_run_invariant) (simp_all add: mounted_def hasErrors_notification)
  with assms show ?thesis by blast
qed

lemma published_invalid_cycle:
  "published
     (run [Edit ''Use AppServices'', TimerFires, ValidationSettles 0 invalidAppServices,
           SuggestionsSettle 0 noSuggestions] mounted)
   = [\<lparr>ValidationState.validationResults =
         [(''AppServices'',
           \<lparr>valid = False, canonical = ''AppServices'', submodule = ''unknown''\<rparr>)],
       suggestions = [],
       hasErrors = True\<rparr>]"
  by (simp add: panel_eval detect_AppServices detect_AppServices_CosmosDb detect_plain)

theorem hasErrors_is_or_of_invalid_witness:
  "hasErrors
     (hd (published
        (run [Edit ''Use AppServices'', TimerFires, ValidationSettles 0 invalidAppServices,
              SuggestionsSettle 0 noSuggestions] mounted)))
   = True
   \<and> (\<exists>e. e \<in> set (ValidationState.validationResults
          (hd (published
             (run [Edit ''Use AppServices'', TimerFires, ValidationSettles 0 invalidAppServices,
                   SuggestionsSettle 0 noSuggestions] mounted))))
         \<and> \<not> valid (snd e))"
proof -
  let ?es = "[Edit ''Use AppServices'', TimerFires, ValidationSettles 0 invalidAppServices,
              SuggestionsSettle 0 noSuggestions]"
  have m: "hd (published (run ?es mounted)) \<in> set (published (run ?es mounted))"
    by (simp add: published_invalid_cycle)
  from hasErrors_is_or_of_invalid [OF m] show ?thesis
    by (simp add: published_invalid_cycle)
qed

section \<open>How many suggestions are kept\<close>

text \<open>
  Claim C4 as stated fails: \<open>slice(0, 5)\<close> is applied to the list given to
  \<open>setSuggestions\<close>, the panel's own state, while the object passed to
  \<open>onValidationChange\<close> carries \<open>archSuggestions.suggestions\<close> whole. With six
  suggestions returned, the published state holds six and the panel shows five.
\<close>

theorem notification_carries_all_suggestions:
  "length (ValidationState.suggestions
     (last (published
        (run [Edit ''Use AppServices'', TimerFires, ValidationSettles 0 invalidAppServices,
              SuggestionsSettle 0 sixSuggestions] mounted)))) = 6
   \<and> length (returnedSuggestions sixSuggestions) = 6
   \<and> length (ValidationPanel.suggestions
        (run [Edit ''Use AppServices'', TimerFires, ValidationSettles 0 invalidAppServices,
              SuggestionsSettle 0 sixSuggestions] mounted)) = 5"
  by (simp add: panel_eval detect_AppServices detect_AppServices_CosmosDb detect_plain)

text \<open>
  Claim C4, amended. When the suggestion call of a cycle settles, the suggestions the
  panel keeps for display are the first five (at most) of the list the call returned,
  and the cycle publishes one ValidationState, whose suggestions are the whole returned
  list, not truncated.
\<close>

theorem panel_keeps_five_notification_keeps_all:
  assumes "inFlight p n = Some (AwaitingSuggestions d cv)" and "onValidationChange p"
  shows "ValidationPanel.suggestions (step (SuggestionsSettle n so) p)
           = take 5 (returnedSuggestions so)
       \<and> length (ValidationPanel.suggestions (step (SuggestionsSettle n so) p)) \<le> 5
       \<and> length (published (step (SuggestionsSettle n so) p)) = length (published p) + 1
       \<and> ValidationState.suggestions (last (published (step (SuggestionsSettle n so) p)))
           = returnedSuggestions so"
  unfolding step_SuggestionsSettle_waiting [OF assms(1)]
  using assms(2) by (simp add: notification_def returnedSuggestions_def)

lemma before_six_suggestions:
  "inFlight (run [Edit ''Use AppServices'', TimerFires, ValidationSettles 0 invalidAppServices]
               mounted) 0
     = Some (AwaitingSuggestions ''Use AppServices''
          (withDetected (fst (validateAzureComponents_settled invalidAppServices))
             [''AppServices'']))
   \<and> onValidationChange
       (run [Edit ''Use AppServices'', TimerFires, ValidationSettles 0 invalidAppServices]
          mounted)"
  by (simp add: panel_eval detect_AppServices detect_AppServices_CosmosDb detect_plain)

lemma returned_six:
  "returnedSuggestions sixSuggestions
     = map (\<lambda>c. \<lparr>component = c, usage = ''hosting'', submodule = ''web''\<rparr>)
         [''A'', ''B'', ''C'', ''D'', ''E'', ''F'']"
  by (simp add: panel_eval detect_AppServices detect_AppServices_CosmosDb detect_plain)

theorem panel_keeps_five_notification_keeps_all_witness:
  "ValidationPanel.suggestions
     (step (SuggestionsSettle 0 sixSuggestions)
        (run [Edit ''Use AppServices'', TimerFires, ValidationSettles 0 invalidAppServices]
           mounted))
     = map (\<lambda>c. \<lparr>component = c, usage = ''hosting'', submodule = ''web''\<rparr>)
         [''A'', ''B'', ''C'', ''D'', ''E'']
   \<and> ValidationState.suggestions
       (last (published
          (step (SuggestionsSettle 0 sixSuggestions)
             (run [Edit ''Use AppServices'', TimerFires, ValidationSettles 0 invalidAppServices]
                mounted))))
     = map (\<lambda>c. \<lparr>component = c, usage = ''hosting'', submodule = ''web''\<rparr>)
         [''A'', ''B'', ''C'', ''D'', ''E'', ''F'']"
  using panel_keeps_five_notification_keeps_all
          [OF before_six_suggestions [THEN conjunct1] before_six_suggestions [THEN conjunct2],
           of sixSuggestions]
  by (simp add: returned_six)


section \<open>Detection and the two requests of a cycle\<close>

lemma fetches_detected_cycle:
  assumes "debounceTimer p = Some d" and "10 \<le> length d" and "detectComponents d \<noteq> []"
  shows "fetches (run [TimerFires, ValidationSettles (started p) vo,
                       SuggestionsSettle (started p) so] p)
       = fetches p @ [ValidateComponents (detectComponents d),
                      SuggestArchitecture d defaultArchitectureTypes]"
proof -
  let ?p1 = "step TimerFires p"
  have w: "inFlight ?p1 (started p) = Some (AwaitingValidation d (detectComponents d))"
    unfolding step_TimerFires_detected [OF assms] by simp
  have f: "fetches ?p1 = fetches p @ [ValidateComponents (detectComponents d)]"
    unfolding step_TimerFires_detected [OF assms] by simp
  have "fetches (run [TimerFires, ValidationSettles (started p) vo,
                      SuggestionsSettle (started p) so] p)
      = fetches (run [ValidationSettles (started p) vo, SuggestionsSettle (started p) so] ?p1)"
    by (simp add: run_def)
  also have "\<dots> = fetches ?p1 @ [SuggestArchitecture d defaultArchitectureTypes]"
    by (subst two_calls_settle [OF w]) simp
  also have "\<dots> = fetches p @ [ValidateComponents (detectComponents d),
                                SuggestArchitecture d defaultArchitectureTypes]"
    by (subst f) simp
  finally show ?thesis .
qed

lemma fetches_nothing_detected_cycle:
  assumes "debounceTimer p = Some d" and "10 \<le> length d" and "detectComponents d = []"
  shows "fetches (run [TimerFires, SuggestionsSettle (started p) so] p)
       = fetches p @ [SuggestArchitecture d defaultArchitectureTypes]"
proof -
  let ?p1 = "step TimerFires p"
  have w: "inFlight ?p1 (started p) = Some (AwaitingSuggestions d noComponents)"
    unfolding step_TimerFires_nothing_detected [OF assms] by simp
  have f: "fetches ?p1 = fetches p @ [SuggestArchitecture d defaultArchitectureTypes]"
    unfolding step_TimerFires_nothing_detected [OF assms] by simp
  have "fetches (run [TimerFires, SuggestionsSettle (started p) so] p)
      = fetches (step (SuggestionsSettle (started p) so) ?p1)"
    by (simp add: run_def)
  also have "\<dots> = fetches ?p1"
    by (subst step_SuggestionsSettle_waiting [OF w]) simp
  finally show ?thesis by (simp only: f)
qed

text \<open>
  Claim C7. For a text of at least 10 characters whose timer fires: the detected
  components are exactly the keywords of the dictionary (in its order) that occur in
  the text ignoring case. If there are any, one validation request is sent with all of
  them as one batch, and over the cycle one suggestion request follows with the whole
  text and the categories frontend, backend, database, cache. If there are none, no
  validation request is sent, the validation result is empty, and the suggestion request
  is the only one. The text "Use AppServices and CosmosDb with CacheForRedis" yields
  AppServices, CosmosDb, CacheForRedis, and so does the same text in another case,
  "use APPSERVICES and cosmosdb with cacheFORredis"; a keyword split by a space, as in
  "Use App Services and Cosmos Db", is not detected.
\<close>

theorem detection_and_batch_calls:
  assumes "debounceTimer p = Some d" and "10 \<le> length d"
  shows "detectComponents d = filter (\<lambda>keyword. occursIgnoringCase keyword d) azureKeywords
       \<and> (detectComponents d \<noteq> [] \<longrightarrow>
            fetches (step TimerFires p) = fetches p @ [ValidateComponents (detectComponents d)]
          \<and> fetches (run [TimerFires, ValidationSettles (started p) vo,
                           SuggestionsSettle (started p) so] p)
              = fetches p @ [ValidateComponents (detectComponents d),
                   SuggestArchitecture d [''frontend'', ''backend'', ''database'', ''cache'']])
       \<and> (detectComponents d = [] \<longrightarrow>
            ValidationPanel.validationResults (step TimerFires p) = []
          \<and> detectedComponents (step TimerFires p) = []
          \<and> fetches (run [TimerFires, SuggestionsSettle (started p) so] p)
              = fetches p @
                  [SuggestArchitecture d [''frontend'', ''backend'', ''database'', ''cache'']])
       \<and> detectComponents ''Use AppServices and CosmosDb with CacheForRedis''
           = [''AppServices'', ''CosmosDb'', ''CacheForRedis'']
       \<and> detectComponents ''use APPSERVICES and cosmosdb with cacheFORredis''
           = [''AppServices'', ''CosmosDb'', ''CacheForRedis'']
       \<and> detectComponents ''Use App Services and Cosmos Db'' = []"
proof (intro conjI impI)
  show "detectComponents d = filter (\<lambda>keyword. occursIgnoringCase keyword d) azureKeywords"
    by (rule detectComponents_spec)
next
  assume n: "detectComponents d \<noteq> []"
  show "fetches (step TimerFires p) = fetches p @ [ValidateComponents (detectComponents d)]"
    unfolding step_TimerFires_detected [OF assms n] by simp
  show "fetches (run [TimerFires, ValidationSettles (started p) vo,
                           SuggestionsSettle (started p) so] p)
              = fetches p @ [ValidateComponents (detectComponents d),
                   SuggestArchitecture d [''frontend'', ''backend'', ''database'', ''cache'']]"
    using fetches_detected_cycle [OF assms n] by (simp add: defaultArchitectureTypes_def)
next
  assume e: "detectComponents d = []"
  show "ValidationPanel.validationResults (step TimerFires p) = []"
    unfolding step_TimerFires_nothing_detected [OF assms e] by simp
  show "detectedComponents (step TimerFires p) = []"
    unfolding step_TimerFires_nothing_detected [OF assms e] by simp
  show "fetches (run [TimerFires, SuggestionsSettle (started p) so] p)
              = fetches p @
                  [SuggestArchitecture d [''frontend'', ''backend'', ''database'', ''cache'']]"
    using fetches_nothing_detected_cycle [OF assms e] by (simp add: defaultArchitectureTypes_def)
next
  show "detectComponents ''Use AppServices and CosmosDb with CacheForRedis''
           = [''AppServices'', ''CosmosDb'', ''CacheForRedis'']"
    by (rule detect_scenario)
next
  show "detectComponents ''use APPSERVICES and cosmosdb with cacheFORredis''
           = [''AppServices'', ''CosmosDb'', ''CacheForRedis'']"
    by (rule detect_other_case)
next
  show "detectComponents ''Use App Services and Cosmos Db'' = []"
    by (rule detect_split_word)
qed

lemma edit_scenario_on_mounted:
  "debounceTimer (step (Edit ''Use AppServices and CosmosDb with CacheForRedis'') mounted)
     = Some ''Use AppServices and CosmosDb with CacheForRedis''
   \<and> fetches (step (Edit ''Use AppServices and CosmosDb with CacheForRedis'') mounted) = []
   \<and> started (step (Edit ''Use AppServices and CosmosDb with CacheForRedis'') mounted) = 0"
  by (simp add: panel_eval detect_AppServices detect_AppServices_CosmosDb detect_plain)

lemma edit_other_case_on_mounted:
  "debounceTimer (step (Edit ''use APPSERVICES and cosmosdb with cacheFORredis'') mounted)
     = Some ''use APPSERVICES and cosmosdb with cacheFORredis''
   \<and> fetches (step (Edit ''use APPSERVICES and cosmosdb with cacheFORredis'') mounted) = []
   \<and> started (step (Edit ''use APPSERVICES and cosmosdb with cacheFORredis'') mounted) = 0"
  by (simp add: panel_eval)

lemma edit_plain_on_mounted:
  "debounceTimer (step (Edit ''a plain web site'') mounted) = Some ''a plain web site''
   \<and> fetches (step (Edit ''a plain web site'') mounted) = []
   \<and> started (step (Edit ''a plain web site'') mounted) = 0
   \<and> detectComponents ''a plain web site'' = []"
  by (simp add: panel_eval detect_AppServices detect_AppServices_CosmosDb detect_plain)

theorem detection_and_batch_calls_witness:
  "fetches
     (run [TimerFires, ValidationSettles 0 twoResults, SuggestionsSettle 0 sixSuggestions]
        (step (Edit ''Use AppServices and CosmosDb with CacheForRedis'') mounted))
     = [ValidateComponents [''AppServices'', ''CosmosDb'', ''CacheForRedis''],
        SuggestArchitecture ''Use AppServices and CosmosDb with CacheForRedis''
          [''frontend'', ''backend'', ''database'', ''cache'']]
   \<and> fetches
       (run [TimerFires, SuggestionsSettle 0 sixSuggestions]
          (step (Edit ''a plain web site'') mounted))
     = [SuggestArchitecture ''a plain web site''
          [''frontend'', ''backend'', ''database'', ''cache'']]
   \<and> fetches
       (run [TimerFires, ValidationSettles 0 twoResults, SuggestionsSettle 0 sixSuggestions]
          (step (Edit ''use APPSERVICES and cosmosdb with cacheFORredis'') mounted))
     = [ValidateComponents [''AppServices'', ''CosmosDb'', ''CacheForRedis''],
        SuggestArchitecture ''use APPSERVICES and cosmosdb with cacheFORredis''
          [''frontend'', ''backend'', ''database'', ''cache'']]
   \<and> filter (\<lambda>keyword. occursIgnoringCase keyword
                 ''use APPSERVICES and cosmosdb with cacheFORredis'') azureKeywords
     = [''AppServices'', ''CosmosDb'', ''CacheForRedis'']
   \<and> filter (\<lambda>keyword. occursIgnoringCase keyword ''a plain web site'') azureKeywords = []"
proof -
  have t3: "debounceTimer
       (step (Edit ''use APPSERVICES and cosmosdb with cacheFORredis'') mounted)
     = Some ''use APPSERVICES and cosmosdb with cacheFORredis''"
    using edit_other_case_on_mounted by blast
  have l3: "10 \<le> length ''use APPSERVICES and cosmosdb with cacheFORredis''" by simp
  have t1: "debounceTimer (step (Edit ''Use AppServices and CosmosDb with CacheForRedis'') mounted)
     = Some ''Use AppServices and CosmosDb with CacheForRedis''"
    using edit_scenario_on_mounted by blast
  have l1: "10 \<le> length ''Use AppServices and CosmosDb with CacheForRedis''" by simp
  have t2: "debounceTimer (step (Edit ''a plain web site'') mounted) = Some ''a plain web site''"
    using edit_plain_on_mounted by blast
  have l2: "10 \<le> length ''a plain web site''" by simp
  note A = detection_and_batch_calls [OF t1 l1, of twoResults sixSuggestions]
  note B = detection_and_batch_calls [OF t2 l2, of twoResults sixSuggestions]
  note C = detection_and_batch_calls [OF t3 l3, of twoResults sixSuggestions]
  have f1: "fetches (step (Edit ''Use AppServices and CosmosDb with CacheForRedis'') mounted) = []"
    using edit_scenario_on_mounted by blast
  have f2: "fetches (step (Edit ''a plain web site'') mounted) = []"
    using edit_plain_on_mounted by blast
  have f3: "fetches (step (Edit ''use APPSERVICES and cosmosdb with cacheFORredis'') mounted) = []"
    using edit_other_case_on_mounted by blast
  have s1: "started (step (Edit ''Use AppServices and CosmosDb with CacheForRedis'') mounted) = 0"
    using edit_scenario_on_mounted by blast
  have s2: "started (step (Edit ''a plain web site'') mounted) = 0"
    using edit_plain_on_mounted by blast
  have s3: "started (step (Edit ''use APPSERVICES and cosmosdb with cacheFORredis'') mounted) = 0"
    using edit_other_case_on_mounted by blast
  have n1: "detectComponents ''Use AppServices and CosmosDb with CacheForRedis'' \<noteq> []"
    unfolding detect_scenario by simp
  have n3: "detectComponents ''use APPSERVICES and cosmosdb with cacheFORredis'' \<noteq> []"
    unfolding detect_other_case by simp
  from A n1 have "fetches
     (run [TimerFires,
           ValidationSettles
             (started (step (Edit ''Use AppServices and CosmosDb with CacheForRedis'') mounted))
             twoResults,
           SuggestionsSettle
             (started (step (Edit ''Use AppServices and CosmosDb with CacheForRedis'') mounted))
             sixSuggestions]
        (step (Edit ''Use AppServices and CosmosDb with CacheForRedis'') mounted))
     = fetches (step (Edit ''Use AppServices and CosmosDb with CacheForRedis'') mounted)
       @ [ValidateComponents
            (detectComponents ''Use AppServices and CosmosDb with CacheForRedis''),
          SuggestArchitecture ''Use AppServices and CosmosDb with CacheForRedis''
            [''frontend'', ''backend'', ''database'', ''cache'']]"
    by blast
  then have one: "fetches
     (run [TimerFires, ValidationSettles 0 twoResults, SuggestionsSettle 0 sixSuggestions]
        (step (Edit ''Use AppServices and CosmosDb with CacheForRedis'') mounted))
     = [ValidateComponents [''AppServices'', ''CosmosDb'', ''CacheForRedis''],
        SuggestArchitecture ''Use AppServices and CosmosDb with CacheForRedis''
          [''frontend'', ''backend'', ''database'', ''cache'']]"
    by (simp only: f1 s1 detect_scenario append_Nil)
  from B detect_plain have "fetches
       (run [TimerFires,
             SuggestionsSettle (started (step (Edit ''a plain web site'') mounted))
               sixSuggestions]
          (step (Edit ''a plain web site'') mounted))
     = fetches (step (Edit ''a plain web site'') mounted)
       @ [SuggestArchitecture ''a plain web site''
            [''frontend'', ''backend'', ''database'', ''cache'']]"
    by blast
  then have two: "fetches
       (run [TimerFires, SuggestionsSettle 0 sixSuggestions]
          (step (Edit ''a plain web site'') mounted))
     = [SuggestArchitecture ''a plain web site''
          [''frontend'', ''backend'', ''database'', ''cache'']]"
    by (simp only: f2 s2 append_Nil)
  from C n3 have "fetches
     (run [TimerFires,
           ValidationSettles
             (started (step (Edit ''use APPSERVICES and cosmosdb with cacheFORredis'') mounted))
             twoResults,
           SuggestionsSettle
             (started (step (Edit ''use APPSERVICES and cosmosdb with cacheFORredis'') mounted))
             sixSuggestions]
        (step (Edit ''use APPSERVICES and cosmosdb with cacheFORredis'') mounted))
     = fetches (step (Edit ''use APPSERVICES and cosmosdb with cacheFORredis'') mounted)
       @ [ValidateComponents
            (detectComponents ''use APPSERVICES and cosmosdb with cacheFORredis''),
          SuggestArchitecture ''use APPSERVICES and cosmosdb with cacheFORredis''
            [''frontend'', ''backend'', ''database'', ''cache'']]"
    by blast
  then have three: "fetches
       (run [TimerFires, ValidationSettles 0 twoResults, SuggestionsSettle 0 sixSuggestions]
          (step (Edit ''use APPSERVICES and cosmosdb with cacheFORredis'') mounted))
     = [ValidateComponents [''AppServices'', ''CosmosDb'', ''CacheForRedis''],
        SuggestArchitecture ''use APPSERVICES and cosmosdb with cacheFORredis''
          [''frontend'', ''backend'', ''database'', ''cache'']]"
    by (simp only: f3 s3 detect_other_case append_Nil)
  from C have "detectComponents ''use APPSERVICES and cosmosdb with cacheFORredis''
      = filter (\<lambda>keyword. occursIgnoringCase keyword
                  ''use APPSERVICES and cosmosdb with cacheFORredis'') azureKeywords"
    by blast
  then have four: "filter (\<lambda>keyword. occursIgnoringCase keyword
                 ''use APPSERVICES and cosmosdb with cacheFORredis'') azureKeywords
     = [''AppServices'', ''CosmosDb'', ''CacheForRedis'']"
    by (simp only: detect_other_case)
  from B have "detectComponents ''a plain web site''
      = filter (\<lambda>keyword. occursIgnoringCase keyword ''a plain web site'') azureKeywords"
    by blast
  then have five: "filter (\<lambda>keyword. occursIgnoringCase keyword ''a plain web site'')
                     azureKeywords = []"
    by (simp only: detect_plain)
  from one two three four five show ?thesis by blast
qed


section \<open>A failed request\<close>





section \<open>A cycle overtaken by a newer one\<close>

text \<open>
  Claim C2 as stated fails: the effect's cleanup clears the timer and nothing else.
  Below, a first cycle starts for "Use AppServices"; the text is edited and a second
  cycle starts; the second cycle's responses arrive and are published while the first
  is still in flight; then the first cycle's responses arrive. They are not discarded:
  a second state is published after the newer one, and the panel shows the components
  detected in the old text.
\<close>

theorem stale_cycle_overwrites_newer:
  "started
     (run [Edit ''Use AppServices'', TimerFires,
           Edit ''Use AppServices and CosmosDb'', TimerFires,
           ValidationSettles 1 twoResults, SuggestionsSettle 1 noSuggestions] mounted) = 2
   \<and> inFlight
       (run [Edit ''Use AppServices'', TimerFires,
             Edit ''Use AppServices and CosmosDb'', TimerFires,
             ValidationSettles 1 twoResults, SuggestionsSettle 1 noSuggestions] mounted) 0
     = Some (AwaitingValidation ''Use AppServices'' [''AppServices''])
   \<and> published
       (run [Edit ''Use AppServices'', TimerFires,
             Edit ''Use AppServices and CosmosDb'', TimerFires,
             ValidationSettles 1 twoResults, SuggestionsSettle 1 noSuggestions] mounted)
     = [\<lparr>ValidationState.validationResults =
           [(''AppServices'',
             \<lparr>valid = True, canonical = ''AppServices'', submodule = ''web''\<rparr>),
            (''CosmosDb'',
             \<lparr>valid = False, canonical = ''CosmosDb'', submodule = ''unknown''\<rparr>)],
         suggestions = [], hasErrors = True\<rparr>]
   \<and> published
       (run [Edit ''Use AppServices'', TimerFires,
             Edit ''Use AppServices and CosmosDb'', TimerFires,
             ValidationSettles 1 twoResults, SuggestionsSettle 1 noSuggestions,
             ValidationSettles 0 validAppServices, SuggestionsSettle 0 noSuggestions] mounted)
     = [\<lparr>ValidationState.validationResults =
           [(''AppServices'',
             \<lparr>valid = True, canonical = ''AppServices'', submodule = ''web''\<rparr>),
            (''CosmosDb'',
             \<lparr>valid = False, canonical = ''CosmosDb'', submodule = ''unknown''\<rparr>)],
         suggestions = [], hasErrors = True\<rparr>,
        \<lparr>ValidationState.validationResults =
           [(''AppServices'',
             \<lparr>valid = True, canonical = ''AppServices'', submodule = ''web''\<rparr>)],
         suggestions = [], hasErrors = False\<rparr>]
   \<and> description
       (run [Edit ''Use AppServices'', TimerFires,
             Edit ''Use AppServices and CosmosDb'', TimerFires,
             ValidationSettles 1 twoResults, SuggestionsSettle 1 noSuggestions,
             ValidationSettles 0 validAppServices, SuggestionsSettle 0 noSuggestions] mounted)
     = ''Use AppServices and CosmosDb''
   \<and> detectedComponents
       (run [Edit ''Use AppServices'', TimerFires,
             Edit ''Use AppServices and CosmosDb'', TimerFires,
             ValidationSettles 1 twoResults, SuggestionsSettle 1 noSuggestions,
             ValidationSettles 0 validAppServices, SuggestionsSettle 0 noSuggestions] mounted)
     = [''AppServices'']"
  by (simp add: panel_eval detect_AppServices detect_AppServices_CosmosDb detect_plain)

text \<open>
  Claim C2, amended. An edit replaces the pending debounce timer and does nothing
  else, so a text that is superseded before its timer fires is never validated: after
  the edit, the timer fires for the new text alone. Once a timer has fired its cycle
  is never discarded: when its validation request settles the results are written to
  the panel state, and when its suggestion request settles the suggestions are written
  and the aggregate is published, whether or not a newer cycle has started since.
\<close>

theorem pending_timer_cancelled_in_flight_applied:
  "(d \<noteq> description p \<longrightarrow>
       debounceTimer (step (Edit d) p) = Some d
     \<and> inFlight (step (Edit d) p) = inFlight p
     \<and> fetches (step (Edit d) p) = fetches p
     \<and> published (step (Edit d) p) = published p
     \<and> step TimerFires (step (Edit d) p)
         = validateDescription_start d (p\<lparr>description := d, debounceTimer := None\<rparr>))
   \<and> (inFlight p n = Some (AwaitingValidation d1 detected) \<longrightarrow>
       ValidationPanel.validationResults (step (ValidationSettles n vo) p) = returnedResults vo
     \<and> detectedComponents (step (ValidationSettles n vo) p) = detected)
   \<and> (inFlight p n = Some (AwaitingSuggestions d2 cv) \<and> onValidationChange p \<longrightarrow>
       ValidationPanel.suggestions (step (SuggestionsSettle n so) p)
         = take 5 (returnedSuggestions so)
     \<and> published (step (SuggestionsSettle n so) p)
         = published p @ [notification cv (fst (getArchitectureSuggestions_settled so))])"
proof (intro conjI impI)
  assume "inFlight p n = Some (AwaitingValidation d1 detected)"
  then have s: "step (ValidationSettles n vo) p
       = p\<lparr>console := console p @ snd (validateAzureComponents_settled vo),
           ValidationPanel.validationResults := returnedResults vo,
           detectedComponents := detected,
           fetches := fetches p @ [SuggestArchitecture d1 defaultArchitectureTypes],
           inFlight := (inFlight p)
             (n \<mapsto> AwaitingSuggestions d1
                    (withDetected (fst (validateAzureComponents_settled vo)) detected))\<rparr>"
    by (rule step_ValidationSettles_waiting)
  show "ValidationPanel.validationResults (step (ValidationSettles n vo) p) = returnedResults vo"
    by (subst s) simp
  show "detectedComponents (step (ValidationSettles n vo) p) = detected"
    by (subst s) simp
next
  assume a: "inFlight p n = Some (AwaitingSuggestions d2 cv) \<and> onValidationChange p"
  then have w: "inFlight p n = Some (AwaitingSuggestions d2 cv)" and c: "onValidationChange p"
    by simp_all
  show "ValidationPanel.suggestions (step (SuggestionsSettle n so) p)
         = take 5 (returnedSuggestions so)"
    by (subst step_SuggestionsSettle_waiting [OF w]) simp
  show "published (step (SuggestionsSettle n so) p)
         = published p @ [notification cv (fst (getArchitectureSuggestions_settled so))]"
    by (subst step_SuggestionsSettle_waiting [OF w]) (simp add: c)
qed simp_all

lemma older_cycle_awaits_validation:
  "inFlight
     (run [Edit ''Use AppServices'', TimerFires,
           Edit ''Use AppServices and CosmosDb'', TimerFires] mounted) 0
     = Some (AwaitingValidation ''Use AppServices'' [''AppServices''])
   \<and> started
       (run [Edit ''Use AppServices'', TimerFires,
             Edit ''Use AppServices and CosmosDb'', TimerFires] mounted) = 2"
  by (simp add: panel_eval detect_AppServices detect_AppServices_CosmosDb)

lemma older_cycle_awaits_suggestions:
  "inFlight
     (run [Edit ''Use AppServices'', TimerFires,
           Edit ''Use AppServices and CosmosDb'', TimerFires,
           ValidationSettles 1 twoResults, SuggestionsSettle 1 noSuggestions,
           ValidationSettles 0 validAppServices] mounted) 0
     = Some (AwaitingSuggestions ''Use AppServices''
          \<lparr>textValidation.success = True,
            validationResults =
              [(''AppServices'',
                \<lparr>valid = True, canonical = ''AppServices'', submodule = ''web''\<rparr>)],
            error = None, detectedComponents = [''AppServices'']\<rparr>)
   \<and> onValidationChange
       (run [Edit ''Use AppServices'', TimerFires,
             Edit ''Use AppServices and CosmosDb'', TimerFires,
             ValidationSettles 1 twoResults, SuggestionsSettle 1 noSuggestions,
             ValidationSettles 0 validAppServices] mounted)
   \<and> published
       (run [Edit ''Use AppServices'', TimerFires,
             Edit ''Use AppServices and CosmosDb'', TimerFires,
             ValidationSettles 1 twoResults, SuggestionsSettle 1 noSuggestions,
             ValidationSettles 0 validAppServices] mounted)
     = [\<lparr>ValidationState.validationResults =
           [(''AppServices'',
             \<lparr>valid = True, canonical = ''AppServices'', submodule = ''web''\<rparr>),
            (''CosmosDb'',
             \<lparr>valid = False, canonical = ''CosmosDb'', submodule = ''unknown''\<rparr>)],
         suggestions = [], hasErrors = True\<rparr>]"
  by (simp add: panel_eval detect_AppServices detect_AppServices_CosmosDb)

theorem pending_timer_cancelled_in_flight_applied_witness:
  "debounceTimer (step (Edit ''Use AppServices'') mounted) = Some ''Use AppServices''
   \<and> ValidationPanel.validationResults
       (step (ValidationSettles 0 validAppServices)
          (run [Edit ''Use AppServices'', TimerFires,
                Edit ''Use AppServices and CosmosDb'', TimerFires] mounted))
     = [(''AppServices'', \<lparr>valid = True, canonical = ''AppServices'', submodule = ''web''\<rparr>)]
   \<and> published
       (step (SuggestionsSettle 0 noSuggestions)
          (run [Edit ''Use AppServices'', TimerFires,
                Edit ''Use AppServices and CosmosDb'', TimerFires,
                ValidationSettles 1 twoResults, SuggestionsSettle 1 noSuggestions,
                ValidationSettles 0 validAppServices] mounted))
     = [\<lparr>ValidationState.validationResults =
           [(''AppServices'',
             \<lparr>valid = True, canonical = ''AppServices'', submodule = ''web''\<rparr>),
            (''CosmosDb'',
             \<lparr>valid = False, canonical = ''CosmosDb'', submodule = ''unknown''\<rparr>)],
         suggestions = [], hasErrors = True\<rparr>,
        \<lparr>ValidationState.validationResults =
           [(''AppServices'',
             \<lparr>valid = True, canonical = ''AppServices'', submodule = ''web''\<rparr>)],
         suggestions = [], hasErrors = False\<rparr>]"
proof -
  have a: "''Use AppServices'' \<noteq> description mounted"
    by (simp add: mounted_def)
  have r: "returnedResults validAppServices
     = [(''AppServices'', \<lparr>valid = True, canonical = ''AppServices'', submodule = ''web''\<rparr>)]"
    by (simp add: panel_eval)
  have n: "notification
       \<lparr>textValidation.success = True,
         validationResults =
           [(''AppServices'',
             \<lparr>valid = True, canonical = ''AppServices'', submodule = ''web''\<rparr>)],
         error = None, detectedComponents = [''AppServices'']\<rparr>
       (fst (getArchitectureSuggestions_settled noSuggestions))
     = \<lparr>ValidationState.validationResults =
           [(''AppServices'',
             \<lparr>valid = True, canonical = ''AppServices'', submodule = ''web''\<rparr>)],
         suggestions = [], hasErrors = False\<rparr>"
    by (simp add: panel_eval)
  from pending_timer_cancelled_in_flight_applied
         [where p = mounted and d = "''Use AppServices''"] a
  have one: "debounceTimer (step (Edit ''Use AppServices'') mounted) = Some ''Use AppServices''"
    by blast
  from pending_timer_cancelled_in_flight_applied
         [where p = "run [Edit ''Use AppServices'', TimerFires,
                          Edit ''Use AppServices and CosmosDb'', TimerFires] mounted"
            and n = 0 and ?d1.0 = "''Use AppServices''" and detected = "[''AppServices'']"
            and vo = validAppServices]
       older_cycle_awaits_validation
  have two: "ValidationPanel.validationResults
       (step (ValidationSettles 0 validAppServices)
          (run [Edit ''Use AppServices'', TimerFires,
                Edit ''Use AppServices and CosmosDb'', TimerFires] mounted))
     = returnedResults validAppServices"
    by blast
  from pending_timer_cancelled_in_flight_applied
         [where p = "run [Edit ''Use AppServices'', TimerFires,
                          Edit ''Use AppServices and CosmosDb'', TimerFires,
                          ValidationSettles 1 twoResults, SuggestionsSettle 1 noSuggestions,
                          ValidationSettles 0 validAppServices] mounted"
            and n = 0 and ?d2.0 = "''Use AppServices''" and so = noSuggestions]
       older_cycle_awaits_suggestions
  have three: "published
       (step (SuggestionsSettle 0 noSuggestions)
          (run [Edit ''Use AppServices'', TimerFires,
                Edit ''Use AppServices and CosmosDb'', TimerFires,
                ValidationSettles 1 twoResults, SuggestionsSettle 1 noSuggestions,
                ValidationSettles 0 validAppServices] mounted))
     = published
         (run [Edit ''Use AppServices'', TimerFires,
               Edit ''Use AppServices and CosmosDb'', TimerFires,
               ValidationSettles 1 twoResults, SuggestionsSettle 1 noSuggestions,
               ValidationSettles 0 validAppServices] mounted)
       @ [notification
            \<lparr>textValidation.success = True,
              validationResults =
                [(''AppServices'',
                  \<lparr>valid = True, canonical = ''AppServices'', submodule = ''web''\<rparr>)],
              error = None, detectedComponents = [''AppServices'']\<rparr>
            (fst (getArchitectureSuggestions_settled noSuggestions))]"
    by blast
  show ?thesis
    unfolding one two three r n
    using older_cycle_awaits_suggestions by simp
qed

end
